theory Spec2Isabelle
  imports Main
begin

section \<open>JavaScript values and exceptions\<close>

text \<open>
  The module under verification is \<^verbatim>\<open>src/userAuth.js\<close>, an Express router that guards a
  web application. A JavaScript string is modelled as a \<^typ>\<open>string\<close>, that is a list of
  8-bit code units. An absent property (\<^verbatim>\<open>undefined\<close>) is \<^const>\<open>None\<close>. A thrown exception is
  the left summand of a result.
\<close>

datatype error = TypeError | SyntaxError

datatype jsval = JBool bool | JUndefined

fun truthy :: "jsval \<Rightarrow> bool" where
  "truthy (JBool b) = b"
| "truthy JUndefined = False"

text \<open>\<^verbatim>\<open>a || b\<close>: the right operand is evaluated only when the left one is falsy.\<close>

definition js_or :: "error + jsval \<Rightarrow> error + jsval \<Rightarrow> error + jsval" where
  "js_or a b = (case a of Inl e \<Rightarrow> Inl e | Inr v \<Rightarrow> if truthy v then Inr v else b)"

text \<open>\<^verbatim>\<open>a && b\<close>: the right operand is evaluated only when the left one is truthy.\<close>

definition js_and :: "error + jsval \<Rightarrow> error + jsval \<Rightarrow> error + jsval" where
  "js_and a b = (case a of Inl e \<Rightarrow> Inl e | Inr v \<Rightarrow> if truthy v then b else Inr v)"

text \<open>\<^verbatim>\<open>!a\<close>.\<close>

definition js_not :: "error + jsval \<Rightarrow> error + jsval" where
  "js_not a = (case a of Inl e \<Rightarrow> Inl e | Inr v \<Rightarrow> Inr (JBool (\<not> truthy v)))"

section \<open>The regular-expression engine of the runtime\<close>

text \<open>
  \<^verbatim>\<open>userDomain.match(domain)\<close> with a string argument compiles \<^verbatim>\<open>new RegExp(domain)\<close> and
  searches the subject for it. The engine belongs to the JavaScript runtime, not to the
  repository, so the operations below take it as a parameter: given a pattern and a
  subject it answers that the pattern occurs somewhere in the subject, that it occurs
  nowhere, or that the pattern does not compile (the constructor throws
  \<^verbatim>\<open>SyntaxError\<close>).
\<close>

datatype rx_result = Matched | NoMatch | Invalid

type_synonym regexp_engine = "string \<Rightarrow> string \<Rightarrow> rx_result"

subsection \<open>A concrete engine for a fragment of the pattern language\<close>

text \<open>
  For evaluation on concrete inputs, \<open>ecma_fragment\<close> implements the ECMAScript semantics
  of patterns that consist of ordinary characters, the wildcard \<^verbatim>\<open>.\<close> (any code unit but a
  line terminator) and the postfix quantifier \<^verbatim>\<open>*\<close>. A \<^verbatim>\<open>*\<close> with nothing to repeat does not
  compile. A pattern that uses any other syntax character is outside the fragment and is
  passed on to the engine \<open>host\<close>.
\<close>

datatype atom = Lit char | AnyChar

type_synonym item = "atom \<times> bool"

definition other_syntax :: "char \<Rightarrow> bool" where
  "other_syntax c \<longleftrightarrow> c \<in> set ''^$+?()[]{}|'' \<or> c = CHR 0x5C"

datatype parsed = Items "item list" | Nothing_to_repeat | Outside

definition to_atom :: "char \<Rightarrow> atom" where
  "to_atom c = (if c = CHR ''.'' then AnyChar else Lit c)"

fun parse_items :: "string \<Rightarrow> item list option" where
  "parse_items [] = Some []"
| "parse_items (c # cs) =
     (if c = CHR ''*'' then None
      else (case cs of
              d # ds \<Rightarrow>
                (if d = CHR ''*'' then map_option (\<lambda>r. (to_atom c, True) # r) (parse_items ds)
                 else map_option (\<lambda>r. (to_atom c, False) # r) (parse_items cs))
            | [] \<Rightarrow> Some [(to_atom c, False)]))"

definition parse_pattern :: "string \<Rightarrow> parsed" where
  "parse_pattern p =
     (if list_ex other_syntax p then Outside
      else (case parse_items p of None \<Rightarrow> Nothing_to_repeat | Some r \<Rightarrow> Items r))"

definition line_terminator :: "char \<Rightarrow> bool" where
  "line_terminator c \<longleftrightarrow> c = CHR 0x0A \<or> c = CHR 0x0D"

fun atom_accepts :: "atom \<Rightarrow> char \<Rightarrow> bool" where
  "atom_accepts (Lit l) c = (l = c)"
| "atom_accepts AnyChar c = (\<not> line_terminator c)"

text \<open>\<open>match_here r s\<close>: some prefix of \<open>s\<close> matches the item sequence \<open>r\<close>.\<close>

fun match_here :: "item list \<Rightarrow> string \<Rightarrow> bool" where
  "match_here [] s = True"
| "match_here ((a, False) # r) [] = False"
| "match_here ((a, False) # r) (c # cs) = (atom_accepts a c \<and> match_here r cs)"
| "match_here ((a, True) # r) [] = match_here r []"
| "match_here ((a, True) # r) (c # cs) =
     (match_here r (c # cs) \<or> (atom_accepts a c \<and> match_here ((a, True) # r) cs))"

text \<open>\<open>search r s\<close>: the item sequence matches at some start position of \<open>s\<close>.\<close>

fun search :: "item list \<Rightarrow> string \<Rightarrow> bool" where
  "search r [] = match_here r []"
| "search r (c # cs) = (match_here r (c # cs) \<or> search r cs)"

definition ecma_fragment :: "regexp_engine \<Rightarrow> regexp_engine" where
  "ecma_fragment host p s =
     (case parse_pattern p of
        Outside \<Rightarrow> host p s
      | Nothing_to_repeat \<Rightarrow> Invalid
      | Items r \<Rightarrow> if search r s then Matched else NoMatch)"

text \<open>The host used in closed examples; no example evaluates a pattern outside the fragment.\<close>

definition no_host :: regexp_engine where
  "no_host p s = Invalid"

definition fragment_engine :: regexp_engine where
  "fragment_engine = ecma_fragment no_host"

section \<open>Module state: the authorization set and the provider\<close>

text \<open>
  \<^verbatim>\<open>process.env\<close>, restricted to the variables this module reads for the claims below.
\<close>

record env =
  APPROVED_DOMAINS :: "string option"
  OAUTH_STRATEGY :: "string option"
  NODE_ENV :: "string option"
  TEST_EMAIL :: "string option"

text \<open>The class \<^verbatim>\<open>\s\<close> on 8-bit code units: tab, LF, VT, FF, CR, space, no-break space.\<close>

definition is_space :: "char \<Rightarrow> bool" where
  "is_space c \<longleftrightarrow>
     c \<in> set [CHR 0x09, CHR 0x0A, CHR 0x0B, CHR 0x0C, CHR 0x0D, CHR 0x20, CHR 0xA0]"

definition cons_first :: "char \<Rightarrow> string list \<Rightarrow> string list" where
  "cons_first c ps = (case ps of [] \<Rightarrow> [[c]] | q # qs \<Rightarrow> (c # q) # qs)"

text \<open>\<^verbatim>\<open>s.split(/,\s?/g)\<close>: a separator is a comma with at most one white-space unit after it.\<close>

fun split_domains :: "string \<Rightarrow> string list" where
  "split_domains [] = [[]]"
| "split_domains [c] = (if c = CHR '','' then [[], []] else [[c]])"
| "split_domains (c # d # ds) =
     (if c = CHR '','' then
        (if is_space d then [] # split_domains ds else [] # split_domains (d # ds))
      else cons_first c (split_domains (d # ds)))"



definition Set_has :: "string list \<Rightarrow> string \<Rightarrow> bool" where
  "Set_has s x \<longleftrightarrow> x \<in> set s"

text \<open>The module-level bindings \<^verbatim>\<open>domains\<close> and \<^verbatim>\<open>isSlackOauth\<close>.\<close>

record server =
  domains :: "string list"
  isSlackOauth :: bool



section \<open>Profiles, sessions and requests\<close>

record email_entry =
  entry_value :: "string option"

text \<open>
  The profile that passport stores in the session. Google profiles carry \<^verbatim>\<open>emails\<close>, Slack
  profiles carry \<^verbatim>\<open>email\<close>; the object \<^verbatim>\<open>{}\<close> has none of the properties.
\<close>

record profile =
  profile_id :: "string option"
  profile_email :: "string option"
  profile_emails :: "email_entry list option"

definition empty_object :: profile where
  "empty_object = \<lparr>profile_id = None, profile_email = None, profile_emails = None\<rparr>"

record passport_data =
  user :: "profile option"

record session =
  passport :: "passport_data option"
  authRedirect :: "string option"

record userInfo =
  email :: "string option"
  userId :: "string option"
  analyticsUserId :: string

text \<open>
  The request as the gate sees it: \<open>isAuthenticated\<close> is what passport's
  \<^verbatim>\<open>req.isAuthenticated()\<close> answers.
\<close>

record request =
  path :: string
  session :: session
  isAuthenticated :: bool
  userInfo :: "userInfo option"

section \<open>The domain matcher\<close>

text \<open>\<^verbatim>\<open>s.split(sep)\<close> for a separator of one code unit.\<close>

fun split_on :: "char \<Rightarrow> string \<Rightarrow> string list" where
  "split_on sep [] = [[]]"
| "split_on sep (c # cs) =
     (if c = sep then [] # split_on sep cs else cons_first c (split_on sep cs))"

text \<open>\<^verbatim>\<open>xs.slice(-1)\<close>.\<close>

definition slice_last :: "'a list \<Rightarrow> 'a list" where
  "slice_last xs = drop (length xs - 1) xs"

text \<open>
  Line 160: \<^verbatim>\<open>const [{value: userEmail = ''} = {}] = user.emails || []\<close>.
\<close>

definition userEmail :: "profile \<Rightarrow> string" where
  "userEmail u =
     (case (case profile_emails u of None \<Rightarrow> [] | Some es \<Rightarrow> es) of
        [] \<Rightarrow> ''''
      | entry # _ \<Rightarrow> (case entry_value entry of None \<Rightarrow> '''' | Some v \<Rightarrow> v))"

text \<open>
  Line 161: \<^verbatim>\<open>const [userDomain] = userEmail.split('@').slice(-1)\<close>; the binding is
  \<^verbatim>\<open>undefined\<close> when the sliced array is empty.
\<close>

definition userDomain :: "string \<Rightarrow> string option" where
  "userDomain e = (case slice_last (split_on CHR ''@'' e) of [] \<Rightarrow> None | d # _ \<Rightarrow> Some d)"

text \<open>
  Lines 162 to 167: the loop over \<^verbatim>\<open>Array.from(domains)\<close>. It returns \<^verbatim>\<open>true\<close> at the first
  pattern found in the domain and falls off the end (\<^verbatim>\<open>undefined\<close>) when there is none; a
  pattern that does not compile throws. Calling \<^verbatim>\<open>match\<close> on \<^verbatim>\<open>undefined\<close> throws
  \<^verbatim>\<open>TypeError\<close>.
\<close>

fun checkRegexEmail :: "regexp_engine \<Rightarrow> string option \<Rightarrow> string list \<Rightarrow> error + jsval" where
  "checkRegexEmail rx d [] = Inr JUndefined"
| "checkRegexEmail rx None (domain # rest) = Inl TypeError"
| "checkRegexEmail rx (Some d) (domain # rest) =
     (case rx domain d of
        Invalid \<Rightarrow> Inl SyntaxError
      | Matched \<Rightarrow> Inr (JBool True)
      | NoMatch \<Rightarrow> checkRegexEmail rx (Some d) rest)"

text \<open>
  Line 168. The set holds strings only, so \<^verbatim>\<open>domains.has(undefined)\<close> is \<^verbatim>\<open>false\<close>.
\<close>

definition isAuthorized :: "regexp_engine \<Rightarrow> string list \<Rightarrow> profile \<Rightarrow> error + jsval" where
  "isAuthorized rx ds u =
     (let e = userEmail u; d = userDomain e in
      js_or (Inr (JBool (case d of None \<Rightarrow> False | Some x \<Rightarrow> Set_has ds x)))
        (js_or (Inr (JBool (Set_has ds e))) (checkRegexEmail rx d ds)))"

section \<open>The identity normalizer\<close>

text \<open>
  Two functions come from outside the file and are parameters of the model: \<open>md5\<close> is
  line 55, the hexadecimal MD5 digest computed by the \<^verbatim>\<open>crypto\<close> module of the runtime, and
  \<open>template\<close> is \<^verbatim>\<open>stringTemplate\<close> of \<^verbatim>\<open>../server/utils\<close>.
\<close>

text \<open>String concatenation \<^verbatim>\<open>x + 'library'\<close>, where \<^verbatim>\<open>undefined\<close> prints as its name.\<close>

definition js_plus :: "string option \<Rightarrow> string \<Rightarrow> string" where
  "js_plus x s = (case x of None \<Rightarrow> ''undefined'' @ s | Some v \<Rightarrow> v @ s)"

text \<open>\<^verbatim>\<open>process.env.NODE_ENV === 'development'\<close>.\<close>

definition isDev :: "env \<Rightarrow> bool" where
  "isDev e \<longleftrightarrow> NODE_ENV e = Some ''development''"

text \<open>
  \<^verbatim>\<open>process.env.TEST_EMAIL || template('footer.defaultEmail')\<close>: an unset or empty variable
  is falsy.
\<close>

definition devEmail :: "(string \<Rightarrow> string) \<Rightarrow> env \<Rightarrow> string" where
  "devEmail template e =
     (case TEST_EMAIL e of
        None \<Rightarrow> template ''footer.defaultEmail''
      | Some t \<Rightarrow> if t = [] then template ''footer.defaultEmail'' else t)"

text \<open>
  Line 180 (production): the e-mail address of the active provider. Reading a property
  of \<^verbatim>\<open>undefined\<close> throws \<^verbatim>\<open>TypeError\<close>: that is the case when the session has no
  \<^verbatim>\<open>passport\<close> object, when that has no \<^verbatim>\<open>user\<close>, and, for Google, when the profile has no
  \<^verbatim>\<open>emails\<close> array or an empty one.
\<close>

definition sessionUser :: "request \<Rightarrow> error + profile" where
  "sessionUser req =
     (case passport (session req) of
        None \<Rightarrow> Inl TypeError
      | Some pp \<Rightarrow> (case user pp of None \<Rightarrow> Inl TypeError | Some u \<Rightarrow> Inr u))"

definition providerEmail :: "server \<Rightarrow> profile \<Rightarrow> error + string option" where
  "providerEmail srv u =
     (if isSlackOauth srv then Inr (profile_email u)
      else (case profile_emails u of
              None \<Rightarrow> Inl TypeError
            | Some [] \<Rightarrow> Inl TypeError
            | Some (entry # _) \<Rightarrow> Inr (entry_value entry)))"

text \<open>Lines 171 to 186. The function returns nothing; its effect is the field \<open>userInfo\<close>.\<close>

definition setUserInfo ::
  "(string \<Rightarrow> string) \<Rightarrow> (string \<Rightarrow> string) \<Rightarrow> env \<Rightarrow> server \<Rightarrow> request \<Rightarrow> error + request" where
  "setUserInfo md5 template e srv req =
     (if isDev e then
        Inr (req\<lparr>userInfo := Some \<lparr>email = Some (devEmail template e),
                                     userId = Some ''10'',
                                     analyticsUserId = md5 ''10library''\<rparr>\<rparr>)
      else
        (case sessionUser req of
           Inl err \<Rightarrow> Inl err
         | Inr u \<Rightarrow>
             (case providerEmail srv u of
                Inl err \<Rightarrow> Inl err
              | Inr em \<Rightarrow>
                  Inr (req\<lparr>userInfo := Some
                    (case userInfo req of
                       Some cached \<Rightarrow> cached
                     | None \<Rightarrow> \<lparr>email = em,
                                userId = profile_id u,
                                analyticsUserId = md5 (js_plus (profile_id u) ''library'')\<rparr>)\<rparr>))))"

section \<open>The auth gate\<close>

text \<open>
  What the middleware of lines 142 to 157 does with the request: \<^verbatim>\<open>next()\<close>,
  \<^verbatim>\<open>next(Error(message))\<close> or \<^verbatim>\<open>res.redirect(location)\<close>.
\<close>

datatype response = Next | NextError string | Redirect string

text \<open>Line 144: \<^verbatim>\<open>(req.session.passport || {}).user || {}\<close>.\<close>

definition passportUser :: "request \<Rightarrow> profile" where
  "passportUser req =
     (case passport (session req) of
        None \<Rightarrow> empty_object
      | Some pp \<Rightarrow> (case user pp of None \<Rightarrow> empty_object | Some u \<Rightarrow> u))"

definition auth_gate ::
  "regexp_engine \<Rightarrow> (string \<Rightarrow> string) \<Rightarrow> (string \<Rightarrow> string) \<Rightarrow> env \<Rightarrow> server \<Rightarrow> request
     \<Rightarrow> error + response \<times> request" where
  "auth_gate rx md5 template e srv req =
     (let authorized = isAuthorized rx (domains srv) (passportUser req);
          authenticated = Inr (JBool (isAuthenticated req))
      in
      case js_or (Inr (JBool (isDev e))) (js_and authenticated authorized) of
        Inl err \<Rightarrow> Inl err
      | Inr allow \<Rightarrow>
          if truthy allow then
            (case setUserInfo md5 template e srv req of
               Inl err \<Rightarrow> Inl err
             | Inr req' \<Rightarrow> Inr (Next, req'))
          else
            (case js_and authenticated (js_not authorized) of
               Inl err \<Rightarrow> Inl err
             | Inr deny \<Rightarrow>
                 if truthy deny then Inr (NextError ''Unauthorized'', req)
                 else
                   Inr (Redirect ''/login'',
                        req\<lparr>session := (session req)\<lparr>authRedirect := Some (path req)\<rparr>\<rparr>)))"



section \<open>Concrete data for closed examples\<close>

text \<open>
  The theorems below hold for every digest function and every template function. A
  closed example has to name some: these two only mark where their argument went.
\<close>

definition example_digest :: "string \<Rightarrow> string" where
  "example_digest s = ''digest:'' @ s"

definition example_template :: "string \<Rightarrow> string" where
  "example_template key = ''template:'' @ key"

definition production :: env where
  "production = \<lparr>APPROVED_DOMAINS = Some ''example.com'', OAUTH_STRATEGY = Some ''google'',
                  NODE_ENV = Some ''production'', TEST_EMAIL = None\<rparr>"

definition development :: env where
  "development = \<lparr>APPROVED_DOMAINS = Some ''example.com'', OAUTH_STRATEGY = Some ''google'',
                   NODE_ENV = Some ''development'', TEST_EMAIL = Some ''dev@example.com''\<rparr>"

definition google_server :: server where
  "google_server = \<lparr>domains = [''example.com''], isSlackOauth = False\<rparr>"

definition google_profile :: "string \<Rightarrow> string \<Rightarrow> profile" where
  "google_profile i addr =
     \<lparr>profile_id = Some i, profile_email = None,
      profile_emails = Some [\<lparr>entry_value = Some addr\<rparr>]\<rparr>"

definition signed_in :: "string \<Rightarrow> profile \<Rightarrow> request" where
  "signed_in p u =
     \<lparr>path = p, session = \<lparr>passport = Some \<lparr>user = Some u\<rparr>, authRedirect = None\<rparr>,
      isAuthenticated = True, userInfo = None\<rparr>"

definition anonymous :: "string \<Rightarrow> request" where
  "anonymous p =
     \<lparr>path = p, session = \<lparr>passport = None, authRedirect = None\<rparr>,
      isAuthenticated = False, userInfo = None\<rparr>"

definition slack_server :: server where
  "slack_server = \<lparr>domains = [''example.com''], isSlackOauth = True\<rparr>"

definition slack_profile :: "string \<Rightarrow> string \<Rightarrow> profile" where
  "slack_profile i addr = \<lparr>profile_id = Some i, profile_email = Some addr, profile_emails = None\<rparr>"

definition no_email_profile :: "string \<Rightarrow> profile" where
  "no_email_profile i = \<lparr>profile_id = Some i, profile_email = None, profile_emails = None\<rparr>"

section \<open>The specification's wording, for comparison with the code\<close>

text \<open>The part of a string after the last occurrence of \<open>sep\<close>; all of it when there is none.\<close>

definition after_last :: "char \<Rightarrow> string \<Rightarrow> string" where
  "after_last sep s = rev (takeWhile (\<lambda>c. c \<noteq> sep) (rev s))"

text \<open>
  The domain as the specification words it: the substring after the last \<^verbatim>\<open>@\<close>, the empty
  string if there is no \<^verbatim>\<open>@\<close>.
\<close>

definition spec_userDomain :: "string \<Rightarrow> string" where
  "spec_userDomain e = (if CHR ''@'' \<in> set e then after_last CHR ''@'' e else '''')"

text \<open>
  Authorization as the specification words it, for an authorization set \<open>S\<close> and an e-mail
  address \<open>E\<close>: the domain of \<open>E\<close> is an element of \<open>S\<close>, or \<open>E\<close> is, or some element of \<open>S\<close>
  is a pattern that occurs in the domain.
\<close>

definition spec_isAuthorized :: "regexp_engine \<Rightarrow> string list \<Rightarrow> string \<Rightarrow> bool" where
  "spec_isAuthorized rx S E \<longleftrightarrow>
     after_last CHR ''@'' E \<in> set S \<or> E \<in> set S
     \<or> (\<exists>p \<in> set S. rx p (after_last CHR ''@'' E) = Matched)"

text \<open>
  The three checks of line 168 as a list, and \<^verbatim>\<open>c1 || c2 || ...\<close> over any list of checks,
  to speak about the order in which they are evaluated.
\<close>

definition checks :: "regexp_engine \<Rightarrow> string list \<Rightarrow> profile \<Rightarrow> (error + jsval) list" where
  "checks rx S u =
     (let e = userEmail u; d = userDomain e in
      [Inr (JBool (case d of None \<Rightarrow> False | Some x \<Rightarrow> Set_has S x)),
       Inr (JBool (Set_has S e)),
       checkRegexEmail rx d S])"

fun or_chain :: "(error + jsval) list \<Rightarrow> error + jsval" where
  "or_chain [] = Inr JUndefined"
| "or_chain [c] = c"
| "or_chain (c # c' # cs) = js_or c (or_chain (c' # cs))"

lemmas engine_defs =
  fragment_engine_def ecma_fragment_def parse_pattern_def other_syntax_def to_atom_def
  line_terminator_def no_host_def

lemmas matcher_defs =
  isAuthorized_def userEmail_def userDomain_def slice_last_def cons_first_def Set_has_def
  js_or_def js_and_def js_not_def

lemmas example_defs =
  production_def development_def google_server_def google_profile_def signed_in_def
  anonymous_def passportUser_def isDev_def

section \<open>Auxiliary facts\<close>

lemma split_on_not_Nil: "split_on sep s \<noteq> []"
  by (induction s) (auto simp: cons_first_def split: list.splits)

lemma split_on_no_sep: "sep \<notin> set s \<Longrightarrow> split_on sep s = [s]"
  by (induction s) (auto simp: cons_first_def)

lemma length_cons_first: "ps \<noteq> [] \<Longrightarrow> length (cons_first c ps) = length ps"
  by (cases ps) (auto simp: cons_first_def)

lemma last_cons_first: "2 \<le> length ps \<Longrightarrow> last (cons_first c ps) = last ps"
  by (cases ps) (auto simp: cons_first_def)

lemma length_split_on: "length (split_on sep s) = Suc (length (filter (\<lambda>c. c = sep) s))"
  by (induction s) (auto simp: length_cons_first split_on_not_Nil)

lemma last_split_on_append:
  "sep \<notin> set t \<Longrightarrow> last (split_on sep (pre @ sep # t)) = t"
proof (induction pre)
  case Nil
  then show ?case by (simp add: split_on_no_sep)
next
  case (Cons c pre)
  have "2 \<le> length (split_on sep (pre @ sep # t))"
    by (simp add: length_split_on)
  with Cons show ?case
    by (simp add: last_cons_first split_on_not_Nil)
qed

lemma slice_last_eq: "xs \<noteq> [] \<Longrightarrow> slice_last xs = [last xs]"
  by (cases xs rule: rev_cases) (auto simp: slice_last_def)

lemma after_last_no_sep: "sep \<notin> set s \<Longrightarrow> after_last sep s = s"
proof -
  assume "sep \<notin> set s"
  then have "takeWhile (\<lambda>c. c \<noteq> sep) (rev s) = rev s"
    by (auto simp: takeWhile_eq_all_conv)
  then show ?thesis by (simp only: after_last_def rev_rev_ident)
qed

lemma after_last_free: "sep \<notin> set (after_last sep s)"
  unfolding after_last_def by (auto dest: set_takeWhileD)

lemma after_last_decomp:
  assumes "sep \<in> set s"
  shows "\<exists>pre. s = pre @ sep # after_last sep s"
proof -
  let ?P = "\<lambda>c. c \<noteq> sep"
  have ne: "dropWhile ?P (rev s) \<noteq> []"
    using assms by (auto simp: dropWhile_eq_Nil_conv)
  then have hd: "hd (dropWhile ?P (rev s)) = sep"
    using hd_dropWhile [of ?P "rev s"] by auto
  have "rev s = takeWhile ?P (rev s) @ sep # tl (dropWhile ?P (rev s))"
    using ne hd by (metis takeWhile_dropWhile_id list.collapse)
  then have "s = rev (tl (dropWhile ?P (rev s))) @ sep # after_last sep s"
    unfolding after_last_def by (metis rev_append rev.simps(2) rev_rev_ident append_assoc append_Cons append_Nil)
  then show ?thesis by blast
qed

lemma userDomain_eq: "userDomain e = Some (after_last CHR ''@'' e)"
proof (cases "CHR ''@'' \<in> set e")
  case True
  then obtain pre where p: "e = pre @ CHR ''@'' # after_last CHR ''@'' e"
    using after_last_decomp by blast
  have "last (split_on CHR ''@'' (pre @ CHR ''@'' # after_last CHR ''@'' e)) = after_last CHR ''@'' e"
    by (rule last_split_on_append) (rule after_last_free)
  with p have "last (split_on CHR ''@'' e) = after_last CHR ''@'' e"
    by simp
  then show ?thesis
    by (simp add: userDomain_def slice_last_eq split_on_not_Nil)
next
  case False
  then show ?thesis
    by (simp add: userDomain_def split_on_no_sep after_last_no_sep slice_last_def)
qed

lemma checkRegexEmail_valid:
  "\<forall>p \<in> set S. rx p d \<noteq> Invalid \<Longrightarrow>
   checkRegexEmail rx (Some d) S =
     Inr (if \<exists>p \<in> set S. rx p d = Matched then JBool True else JUndefined)"
  by (induction S) (auto split: rx_result.splits)


lemma isAuthorized_or_chain: "isAuthorized rx S u = or_chain (checks rx S u)"
  by (simp add: isAuthorized_def checks_def Let_def)

lemma or_chain_truthy:
  "\<forall>c \<in> set cs. \<exists>v. c = Inr v \<Longrightarrow>
   \<exists>v. or_chain cs = Inr v \<and> (truthy v \<longleftrightarrow> (\<exists>w. Inr w \<in> set cs \<and> truthy w))"
proof (induction cs rule: or_chain.induct)
  case 1
  then show ?case by simp
next
  case (2 c)
  then show ?case by auto
next
  case (3 c c' cs)
  then obtain v where v: "or_chain (c' # cs) = Inr v"
    and tv: "truthy v \<longleftrightarrow> (\<exists>w. Inr w \<in> set (c' # cs) \<and> truthy w)"
    by auto
  from 3(2) obtain x where x: "c = Inr x" by auto
  show ?case
  proof (cases "truthy x")
    case True
    with x show ?thesis by (auto simp: js_or_def)
  next
    case False
    with x v tv show ?thesis by (auto simp: js_or_def)
  qed
qed

lemma isAuthorized_valid:
  assumes "\<forall>p \<in> set S. rx p (after_last CHR ''@'' (userEmail u)) \<noteq> Invalid"
  shows "isAuthorized rx S u =
           Inr (if spec_isAuthorized rx S (userEmail u) then JBool True else JUndefined)"
  using assms
  by (auto simp: isAuthorized_def userDomain_eq Set_has_def js_or_def spec_isAuthorized_def
        checkRegexEmail_valid Let_def)

lemma checks_total:
  assumes "\<forall>p \<in> set S. rx p (after_last CHR ''@'' (userEmail u)) \<noteq> Invalid"
  shows "\<forall>c \<in> set (checks rx S u). \<exists>v. c = Inr v"
  using assms by (simp add: checks_def userDomain_eq checkRegexEmail_valid Let_def)

lemma checks_truthy:
  assumes "\<forall>p \<in> set S. rx p (after_last CHR ''@'' (userEmail u)) \<noteq> Invalid"
  shows "(\<exists>w. Inr w \<in> set (checks rx S u) \<and> truthy w) \<longleftrightarrow> spec_isAuthorized rx S (userEmail u)"
  using assms
  by (auto simp: checks_def userDomain_eq checkRegexEmail_valid Let_def Set_has_def
        spec_isAuthorized_def split: if_splits)










lemma split_domains_single: "CHR '','' \<notin> set v \<Longrightarrow> split_domains v = [v]"
  by (induction v rule: split_domains.induct) (auto simp: cons_first_def)




section \<open>The auth gate: verified properties\<close>

text \<open>
  C4. Development mode off, \<^verbatim>\<open>req.isAuthenticated()\<close> true, and the domain matcher returns a
  falsy value for the session's profile: the gate calls \<^verbatim>\<open>next(Error('Unauthorized'))\<close>. It
  does not redirect, and the request is left as it was, so no user information is attached.
\<close>

theorem auth_gate_unauthorized:
  assumes "\<not> isDev e" and "isAuthenticated req"
    and "isAuthorized rx (domains srv) (passportUser req) = Inr v" and "\<not> truthy v"
  shows "auth_gate rx md5 template e srv req = Inr (NextError ''Unauthorized'', req)"
  using assms by (simp add: auth_gate_def js_or_def js_and_def js_not_def)

theorem auth_gate_unauthorized_witness:
  "\<not> isDev production
   \<and> isAuthenticated (signed_in ''/dashboard'' (google_profile ''u1'' ''a@other.com''))
   \<and> isAuthorized fragment_engine (domains google_server)
         (passportUser (signed_in ''/dashboard'' (google_profile ''u1'' ''a@other.com'')))
       = Inr JUndefined
   \<and> \<not> truthy JUndefined
   \<and> auth_gate fragment_engine example_digest example_template production google_server
         (signed_in ''/dashboard'' (google_profile ''u1'' ''a@other.com''))
       = Inr (NextError ''Unauthorized'',
              signed_in ''/dashboard'' (google_profile ''u1'' ''a@other.com''))"
proof -
  let ?req = "signed_in ''/dashboard'' (google_profile ''u1'' ''a@other.com'')"
  have dev: "\<not> isDev production"
    by (simp add: example_defs)
  have auth: "isAuthenticated ?req"
    by (simp add: example_defs)
  have no: "isAuthorized fragment_engine (domains google_server) (passportUser ?req)
              = Inr JUndefined"
    by (simp add: example_defs matcher_defs engine_defs)
  have falsy: "\<not> truthy JUndefined"
    by simp
  from auth_gate_unauthorized [OF dev auth no falsy] dev auth no falsy
  show ?thesis by blast
qed

text \<open>
  C5. Development mode off and \<^verbatim>\<open>req.isAuthenticated()\<close> false: the gate stores the request
  path in \<^verbatim>\<open>session.authRedirect\<close> and redirects to \<^verbatim>\<open>/login\<close>. Nothing else of the request
  changes, so no user information is attached. The domain matcher is not consulted: the
  result holds for every engine and every authorization set.
\<close>

theorem auth_gate_unauthenticated:
  assumes "\<not> isDev e" and "\<not> isAuthenticated req"
  shows "auth_gate rx md5 template e srv req =
           Inr (Redirect ''/login'',
                req\<lparr>session := (session req)\<lparr>authRedirect := Some (path req)\<rparr>\<rparr>)"
  using assms by (simp add: auth_gate_def js_or_def js_and_def)

theorem auth_gate_unauthenticated_witness:
  "\<not> isDev production \<and> \<not> isAuthenticated (anonymous ''/dashboard'')
   \<and> auth_gate fragment_engine example_digest example_template production google_server
         (anonymous ''/dashboard'')
       = Inr (Redirect ''/login'',
              \<lparr>path = ''/dashboard'',
               session = \<lparr>passport = None, authRedirect = Some ''/dashboard''\<rparr>,
               isAuthenticated = False, userInfo = None\<rparr>)"
proof -
  have dev: "\<not> isDev production"
    by (simp add: example_defs)
  have anon: "\<not> isAuthenticated (anonymous ''/dashboard'')"
    by (simp add: example_defs)
  from auth_gate_unauthenticated [OF dev anon] dev anon
  show ?thesis by (simp add: anonymous_def)
qed

text \<open>
  C6. Development mode on: the gate calls \<^verbatim>\<open>next()\<close> with the synthetic identity attached,
  for every session, engine and authorization set. The user id is \<^verbatim>\<open>10\<close> and the analytics
  id is the digest of \<^verbatim>\<open>10library\<close>. The e-mail address is configurable: it is the value of
  \<^verbatim>\<open>TEST_EMAIL\<close> when that variable is set and not empty, and the template text
  \<^verbatim>\<open>footer.defaultEmail\<close> when it is unset or empty.
\<close>

theorem auth_gate_dev_bypass:
  assumes "isDev e"
  shows "auth_gate rx md5 template e srv req =
           Inr (Next,
                req\<lparr>userInfo := Some
                  \<lparr>email = Some (case TEST_EMAIL e of
                                   None \<Rightarrow> template ''footer.defaultEmail''
                                 | Some t \<Rightarrow>
                                     if t = '''' then template ''footer.defaultEmail'' else t),
                   userId = Some ''10'',
                   analyticsUserId = md5 ''10library''\<rparr>\<rparr>)
         \<and> (\<exists>info. auth_gate rx md5 template e srv req = Inr (Next, req\<lparr>userInfo := Some info\<rparr>)
                \<and> userId info = Some ''10''
                \<and> analyticsUserId info = md5 ''10library''
                \<and> (\<forall>t. TEST_EMAIL e = Some t \<and> t \<noteq> '''' \<longrightarrow> email info = Some t)
                \<and> (TEST_EMAIL e = None \<or> TEST_EMAIL e = Some ''''
                      \<longrightarrow> email info = Some (template ''footer.defaultEmail'')))"
proof -
  let ?info = "\<lparr>email = Some (case TEST_EMAIL e of
                                   None \<Rightarrow> template ''footer.defaultEmail''
                                 | Some t \<Rightarrow>
                                     if t = '''' then template ''footer.defaultEmail'' else t),
                 userId = Some ''10'',
                 analyticsUserId = md5 ''10library''\<rparr>"
  have eq: "auth_gate rx md5 template e srv req = Inr (Next, req\<lparr>userInfo := Some ?info\<rparr>)"
    using assms by (simp add: auth_gate_def js_or_def setUserInfo_def devEmail_def)
  have "userId ?info = Some ''10''" and "analyticsUserId ?info = md5 ''10library''"
    and "\<forall>t. TEST_EMAIL e = Some t \<and> t \<noteq> '''' \<longrightarrow> email ?info = Some t"
    and "TEST_EMAIL e = None \<or> TEST_EMAIL e = Some ''''
           \<longrightarrow> email ?info = Some (template ''footer.defaultEmail'')"
    by auto
  with eq show ?thesis by blast
qed

theorem auth_gate_dev_bypass_witness:
  "isDev development
   \<and> TEST_EMAIL development = Some ''dev@example.com''
   \<and> auth_gate fragment_engine example_digest example_template development google_server
         (anonymous ''/dashboard'')
       = Inr (Next,
              \<lparr>path = ''/dashboard'', session = \<lparr>passport = None, authRedirect = None\<rparr>,
               isAuthenticated = False,
               userInfo = Some \<lparr>email = Some ''dev@example.com'', userId = Some ''10'',
                                 analyticsUserId = example_digest ''10library''\<rparr>\<rparr>)
   \<and> isDev (development\<lparr>TEST_EMAIL := Some ''qa@thecity.nyc''\<rparr>)
   \<and> auth_gate fragment_engine example_digest example_template
         (development\<lparr>TEST_EMAIL := Some ''qa@thecity.nyc''\<rparr>) google_server
         (signed_in ''/'' (google_profile ''u1'' ''a@other.com''))
       = Inr (Next,
              (signed_in ''/'' (google_profile ''u1'' ''a@other.com''))
                \<lparr>userInfo := Some \<lparr>email = Some ''qa@thecity.nyc'', userId = Some ''10'',
                                    analyticsUserId = example_digest ''10library''\<rparr>\<rparr>)
   \<and> isDev (development\<lparr>TEST_EMAIL := None\<rparr>)
   \<and> auth_gate fragment_engine example_digest example_template
         (development\<lparr>TEST_EMAIL := None\<rparr>) google_server (anonymous ''/dashboard'')
       = Inr (Next,
              (anonymous ''/dashboard'')
                \<lparr>userInfo := Some \<lparr>email = Some (example_template ''footer.defaultEmail''),
                                    userId = Some ''10'',
                                    analyticsUserId = example_digest ''10library''\<rparr>\<rparr>)
   \<and> isDev (development\<lparr>TEST_EMAIL := Some ''''\<rparr>)
   \<and> auth_gate fragment_engine example_digest example_template
         (development\<lparr>TEST_EMAIL := Some ''''\<rparr>) google_server (anonymous ''/dashboard'')
       = Inr (Next,
              (anonymous ''/dashboard'')
                \<lparr>userInfo := Some \<lparr>email = Some (example_template ''footer.defaultEmail''),
                                    userId = Some ''10'',
                                    analyticsUserId = example_digest ''10library''\<rparr>\<rparr>)"
proof -
  have d1: "isDev development"
    by (simp add: example_defs)
  have t1: "TEST_EMAIL development = Some ''dev@example.com''"
    by (simp add: development_def)
  have d2: "isDev (development\<lparr>TEST_EMAIL := Some ''qa@thecity.nyc''\<rparr>)"
    by (simp add: example_defs)
  have d3: "isDev (development\<lparr>TEST_EMAIL := None\<rparr>)"
    by (simp add: example_defs)
  have d4: "isDev (development\<lparr>TEST_EMAIL := Some ''''\<rparr>)"
    by (simp add: example_defs)
  have 1: "auth_gate fragment_engine example_digest example_template development google_server
         (anonymous ''/dashboard'')
       = Inr (Next,
              \<lparr>path = ''/dashboard'', session = \<lparr>passport = None, authRedirect = None\<rparr>,
               isAuthenticated = False,
               userInfo = Some \<lparr>email = Some ''dev@example.com'', userId = Some ''10'',
                                 analyticsUserId = example_digest ''10library''\<rparr>\<rparr>)"
    using auth_gate_dev_bypass [OF d1, of fragment_engine example_digest example_template
        google_server "anonymous ''/dashboard''"] t1
    by (simp add: anonymous_def)
  have 2: "auth_gate fragment_engine example_digest example_template
         (development\<lparr>TEST_EMAIL := Some ''qa@thecity.nyc''\<rparr>) google_server
         (signed_in ''/'' (google_profile ''u1'' ''a@other.com''))
       = Inr (Next,
              (signed_in ''/'' (google_profile ''u1'' ''a@other.com''))
                \<lparr>userInfo := Some \<lparr>email = Some ''qa@thecity.nyc'', userId = Some ''10'',
                                    analyticsUserId = example_digest ''10library''\<rparr>\<rparr>)"
    using auth_gate_dev_bypass [OF d2, of fragment_engine example_digest example_template
        google_server "signed_in ''/'' (google_profile ''u1'' ''a@other.com'')"]
    by simp
  have 3: "auth_gate fragment_engine example_digest example_template
         (development\<lparr>TEST_EMAIL := None\<rparr>) google_server (anonymous ''/dashboard'')
       = Inr (Next,
              (anonymous ''/dashboard'')
                \<lparr>userInfo := Some \<lparr>email = Some (example_template ''footer.defaultEmail''),
                                    userId = Some ''10'',
                                    analyticsUserId = example_digest ''10library''\<rparr>\<rparr>)"
    using auth_gate_dev_bypass [OF d3, of fragment_engine example_digest example_template
        google_server "anonymous ''/dashboard''"]
    by simp
  have 4: "auth_gate fragment_engine example_digest example_template
         (development\<lparr>TEST_EMAIL := Some ''''\<rparr>) google_server (anonymous ''/dashboard'')
       = Inr (Next,
              (anonymous ''/dashboard'')
                \<lparr>userInfo := Some \<lparr>email = Some (example_template ''footer.defaultEmail''),
                                    userId = Some ''10'',
                                    analyticsUserId = example_digest ''10library''\<rparr>\<rparr>)"
    using auth_gate_dev_bypass [OF d4, of fragment_engine example_digest example_template
        google_server "anonymous ''/dashboard''"]
    by simp
  from d1 t1 1 d2 2 d3 3 d4 4 show ?thesis by blast
qed

section \<open>The identity normalizer: verified properties\<close>

text \<open>
  C7. When a call of \<^verbatim>\<open>setUserInfo\<close> returns, a second call on the resulting request returns
  too and leaves the request, and with it the attached user information, as the first
  call left it.
\<close>

theorem setUserInfo_idempotent:
  assumes "setUserInfo md5 template e srv req = Inr req1"
  shows "setUserInfo md5 template e srv req1 = Inr req1"
proof (cases "isDev e")
  case True
  with assms show ?thesis by (auto simp: setUserInfo_def)
next
  case False
  with assms show ?thesis
    by (auto simp: setUserInfo_def sessionUser_def split: sum.splits option.splits)
qed

theorem setUserInfo_idempotent_witness:
  "setUserInfo example_digest example_template production google_server
     (signed_in ''/'' (google_profile ''u1'' ''a@example.com''))
   = Inr ((signed_in ''/'' (google_profile ''u1'' ''a@example.com''))
            \<lparr>userInfo := Some \<lparr>email = Some ''a@example.com'', userId = Some ''u1'',
                                analyticsUserId = example_digest ''u1library''\<rparr>\<rparr>)
   \<and> setUserInfo example_digest example_template production google_server
       ((signed_in ''/'' (google_profile ''u1'' ''a@example.com''))
            \<lparr>userInfo := Some \<lparr>email = Some ''a@example.com'', userId = Some ''u1'',
                                analyticsUserId = example_digest ''u1library''\<rparr>\<rparr>)
     = Inr ((signed_in ''/'' (google_profile ''u1'' ''a@example.com''))
            \<lparr>userInfo := Some \<lparr>email = Some ''a@example.com'', userId = Some ''u1'',
                                analyticsUserId = example_digest ''u1library''\<rparr>\<rparr>)"
proof -
  have first: "setUserInfo example_digest example_template production google_server
      (signed_in ''/'' (google_profile ''u1'' ''a@example.com''))
    = Inr ((signed_in ''/'' (google_profile ''u1'' ''a@example.com''))
            \<lparr>userInfo := Some \<lparr>email = Some ''a@example.com'', userId = Some ''u1'',
                                analyticsUserId = example_digest ''u1library''\<rparr>\<rparr>)"
    by (simp add: setUserInfo_def sessionUser_def providerEmail_def js_plus_def example_defs)
  from setUserInfo_idempotent [OF first] first
  show ?thesis by blast
qed

text \<open>
  C8, as stated, fails: in production mode with the Google provider active, a session
  profile that has an identifier but no \<^verbatim>\<open>emails\<close> array makes \<^verbatim>\<open>setUserInfo\<close> throw
  \<^verbatim>\<open>TypeError\<close> at line 180, so no user information is computed for it.
\<close>

theorem setUserInfo_counterexample:
  "\<not> isDev production
   \<and> sessionUser (signed_in ''/'' (no_email_profile ''u1'')) = Inr (no_email_profile ''u1'')
   \<and> setUserInfo example_digest example_template production google_server
         (signed_in ''/'' (no_email_profile ''u1'')) = Inl TypeError"
  by (simp add: setUserInfo_def sessionUser_def providerEmail_def example_defs
        no_email_profile_def)

text \<open>
  C8, amended. In production mode, for a request that carries no user information yet and
  whose session profile is \<open>u\<close>, provided Slack is the active provider or \<open>u\<close> has at least
  one e-mail entry: \<^verbatim>\<open>setUserInfo\<close> attaches user information whose \<open>userId\<close> is the
  profile's identifier, whose \<open>analyticsUserId\<close> is the digest of that identifier followed
  by \<^verbatim>\<open>library\<close> (a function of the identifier alone), and whose \<open>email\<close> is \<^verbatim>\<open>profile.email\<close>
  for Slack and the value of the first e-mail entry for Google.
\<close>

theorem setUserInfo_production:
  assumes "\<not> isDev e" and "sessionUser req = Inr u" and "userInfo req = None"
    and "isSlackOauth srv \<or> (\<exists>x xs. profile_emails u = Some (x # xs))"
  shows "\<exists>info. setUserInfo md5 template e srv req = Inr (req\<lparr>userInfo := Some info\<rparr>)
           \<and> userId info = profile_id u
           \<and> analyticsUserId info = md5 (js_plus (profile_id u) ''library'')
           \<and> (\<forall>i. profile_id u = Some i \<longrightarrow> analyticsUserId info = md5 (i @ ''library''))
           \<and> (isSlackOauth srv \<longrightarrow> email info = profile_email u)
           \<and> (\<forall>x xs. \<not> isSlackOauth srv \<and> profile_emails u = Some (x # xs)
                  \<longrightarrow> email info = entry_value x)"
  using assms
  by (auto simp: setUserInfo_def providerEmail_def js_plus_def)

theorem setUserInfo_production_witness:
  "\<not> isDev production
   \<and> sessionUser (signed_in ''/'' (google_profile ''u1'' ''a@example.com''))
       = Inr (google_profile ''u1'' ''a@example.com'')
   \<and> userInfo (signed_in ''/'' (google_profile ''u1'' ''a@example.com'')) = None
   \<and> \<not> isSlackOauth google_server
   \<and> profile_emails (google_profile ''u1'' ''a@example.com'')
       = Some [\<lparr>entry_value = Some ''a@example.com''\<rparr>]
   \<and> (\<exists>info. setUserInfo example_digest example_template production google_server
                 (signed_in ''/'' (google_profile ''u1'' ''a@example.com''))
               = Inr ((signed_in ''/'' (google_profile ''u1'' ''a@example.com''))
                        \<lparr>userInfo := Some info\<rparr>)
             \<and> userId info = Some ''u1''
             \<and> analyticsUserId info = example_digest ''u1library''
             \<and> email info = Some ''a@example.com'')
   \<and> sessionUser (signed_in ''/'' (slack_profile ''U42'' ''b@example.com''))
       = Inr (slack_profile ''U42'' ''b@example.com'')
   \<and> isSlackOauth slack_server
   \<and> (\<exists>info. setUserInfo example_digest example_template production slack_server
                 (signed_in ''/'' (slack_profile ''U42'' ''b@example.com''))
               = Inr ((signed_in ''/'' (slack_profile ''U42'' ''b@example.com''))
                        \<lparr>userInfo := Some info\<rparr>)
             \<and> userId info = Some ''U42''
             \<and> analyticsUserId info = example_digest ''U42library''
             \<and> email info = Some ''b@example.com'')"
proof -
  let ?g = "google_profile ''u1'' ''a@example.com''"
  let ?s = "slack_profile ''U42'' ''b@example.com''"
  have dev: "\<not> isDev production"
    by (simp add: example_defs)
  have gu: "sessionUser (signed_in ''/'' ?g) = Inr ?g"
    by (simp add: sessionUser_def signed_in_def)
  have gn: "userInfo (signed_in ''/'' ?g) = None"
    by (simp add: signed_in_def)
  have gp: "\<not> isSlackOauth google_server"
    by (simp add: google_server_def)
  have ge: "profile_emails ?g = Some [\<lparr>entry_value = Some ''a@example.com''\<rparr>]"
    by (simp add: google_profile_def)
  have gh: "isSlackOauth google_server \<or> (\<exists>x xs. profile_emails ?g = Some (x # xs))"
    using ge by blast
  have su: "sessionUser (signed_in ''/'' ?s) = Inr ?s"
    by (simp add: sessionUser_def signed_in_def)
  have sn: "userInfo (signed_in ''/'' ?s) = None"
    by (simp add: signed_in_def)
  have sp: "isSlackOauth slack_server"
    by (simp add: slack_server_def)
  have sh: "isSlackOauth slack_server \<or> (\<exists>x xs. profile_emails ?s = Some (x # xs))"
    using sp by blast
  have g: "\<exists>info. setUserInfo example_digest example_template production google_server
                 (signed_in ''/'' ?g)
               = Inr ((signed_in ''/'' ?g)\<lparr>userInfo := Some info\<rparr>)
             \<and> userId info = Some ''u1''
             \<and> analyticsUserId info = example_digest ''u1library''
             \<and> email info = Some ''a@example.com''"
    using setUserInfo_production [OF dev gu gn gh, of example_digest example_template] gp
    by (auto simp: google_profile_def)
  have s: "\<exists>info. setUserInfo example_digest example_template production slack_server
                 (signed_in ''/'' ?s)
               = Inr ((signed_in ''/'' ?s)\<lparr>userInfo := Some info\<rparr>)
             \<and> userId info = Some ''U42''
             \<and> analyticsUserId info = example_digest ''U42library''
             \<and> email info = Some ''b@example.com''"
    using setUserInfo_production [OF dev su sn sh, of example_digest example_template] sp
    by (auto simp: slack_profile_def)
  from dev gu gn gp ge g su sp s show ?thesis by blast
qed

section \<open>The path from the gate into the identity normalizer\<close>

text \<open>
  C10. The authorization set \<^verbatim>\<open>{'.*'}\<close> holds a pattern that matches the empty string. For an
  authenticated session whose profile has no \<^verbatim>\<open>emails\<close> array, in production mode with the
  Google provider, the domain matcher returns \<^verbatim>\<open>true\<close>, and \<^verbatim>\<open>setUserInfo\<close>, which the gate
  then calls, throws \<^verbatim>\<open>TypeError\<close>: the gate neither proceeds nor answers.
\<close>

theorem authorized_profile_without_emails_throws:
  "isAuthenticated (signed_in ''/'' (no_email_profile ''u1''))
   \<and> profile_emails (passportUser (signed_in ''/'' (no_email_profile ''u1''))) = None
   \<and> isAuthorized fragment_engine [''.*''] (passportUser (signed_in ''/'' (no_email_profile ''u1'')))
       = Inr (JBool True)
   \<and> setUserInfo md5 template production \<lparr>domains = [''.*''], isSlackOauth = False\<rparr>
         (signed_in ''/'' (no_email_profile ''u1'')) = Inl TypeError
   \<and> auth_gate fragment_engine md5 template production \<lparr>domains = [''.*''], isSlackOauth = False\<rparr>
         (signed_in ''/'' (no_email_profile ''u1'')) = Inl TypeError"
proof -
  let ?req = "signed_in ''/'' (no_email_profile ''u1'')"
  let ?srv = "\<lparr>domains = [''.*''], isSlackOauth = False\<rparr>"
  have a: "isAuthenticated ?req"
    by (simp add: signed_in_def)
  have b: "profile_emails (passportUser ?req) = None"
    by (simp add: example_defs no_email_profile_def)
  have c: "isAuthorized fragment_engine [''.*''] (passportUser ?req) = Inr (JBool True)"
    by (simp add: example_defs no_email_profile_def matcher_defs engine_defs)
  have d: "setUserInfo md5 template production ?srv ?req = Inl TypeError"
    by (simp add: setUserInfo_def sessionUser_def providerEmail_def example_defs
          no_email_profile_def)
  have e: "auth_gate fragment_engine md5 template production ?srv ?req = Inl TypeError"
    using a c d by (simp add: auth_gate_def js_or_def js_and_def isDev_def production_def)
  from a b c d e show ?thesis by blast
qed

section \<open>The domain matcher: verified properties\<close>

text \<open>
  C3, as stated, fails: for an e-mail value without \<^verbatim>\<open>@\<close> the code takes the whole value as
  the domain, not the empty string.
\<close>

theorem userDomain_counterexample:
  "CHR ''@'' \<notin> set ''localuser'' \<and> userDomain ''localuser'' = Some ''localuser''
   \<and> spec_userDomain ''localuser'' = ''''"
  by (simp add: userDomain_def slice_last_def cons_first_def spec_userDomain_def)

text \<open>
  C3, amended. For every e-mail string, the domain used by \<^verbatim>\<open>isAuthorized\<close> is the part after
  the last \<^verbatim>\<open>@\<close> and contains no \<^verbatim>\<open>@\<close>; when the string contains an \<^verbatim>\<open>@\<close> this is the
  specification's domain, and when it contains none the domain is the whole string.
\<close>

theorem userDomain_after_last_at:
  "userDomain e = Some (after_last CHR ''@'' e)
   \<and> CHR ''@'' \<notin> set (after_last CHR ''@'' e)
   \<and> (CHR ''@'' \<in> set e \<longrightarrow>
        (\<exists>pre. e = pre @ CHR ''@'' # after_last CHR ''@'' e)
        \<and> userDomain e = Some (spec_userDomain e))
   \<and> (CHR ''@'' \<notin> set e \<longrightarrow> userDomain e = Some e)"
  using after_last_decomp [of "CHR ''@''" e]
  by (simp add: userDomain_eq after_last_free after_last_no_sep spec_userDomain_def)

theorem userDomain_after_last_at_witness:
  "CHR ''@'' \<in> set ''a@b@example.com''
   \<and> userDomain ''a@b@example.com'' = Some ''example.com''
   \<and> spec_userDomain ''a@b@example.com'' = ''example.com''
   \<and> CHR ''@'' \<notin> set ''localuser''
   \<and> userDomain ''localuser'' = Some ''localuser''"
  using userDomain_after_last_at [of "''a@b@example.com''"]
    userDomain_after_last_at [of "''localuser''"]
  by (simp add: after_last_def spec_userDomain_def)

text \<open>
  C1, as stated, fails. With the authorization set \<^verbatim>\<open>*.example.com, example.org\<close> and the
  address \<^verbatim>\<open>a@mail.example.org\<close> the domain contains the pattern \<^verbatim>\<open>example.org\<close>, yet
  \<^verbatim>\<open>isAuthorized\<close> does not return \<^verbatim>\<open>true\<close>: the loop reaches \<^verbatim>\<open>*.example.com\<close> first, which
  does not compile, and \<^verbatim>\<open>SyntaxError\<close> is thrown. With the two elements in the other order
  the result is \<^verbatim>\<open>true\<close>, so the result depends on the order. Where no check succeeds, the
  value returned is \<^verbatim>\<open>undefined\<close>, not \<^verbatim>\<open>false\<close>.
\<close>

theorem isAuthorized_counterexample:
  "spec_isAuthorized fragment_engine [''*.example.com'', ''example.org''] ''a@mail.example.org''
   \<and> isAuthorized fragment_engine [''*.example.com'', ''example.org'']
         (google_profile ''u1'' ''a@mail.example.org'') = Inl SyntaxError
   \<and> isAuthorized fragment_engine [''example.org'', ''*.example.com'']
         (google_profile ''u1'' ''a@mail.example.org'') = Inr (JBool True)
   \<and> \<not> spec_isAuthorized fragment_engine [''example.com''] ''a@other.com''
   \<and> isAuthorized fragment_engine [''example.com''] (google_profile ''u1'' ''a@other.com'')
       = Inr JUndefined"
proof -
  have m: "fragment_engine ''example.org'' ''mail.example.org'' = Matched"
    by (simp add: engine_defs)
  have i: "fragment_engine ''*.example.com'' ''mail.example.org'' = Invalid"
    by (simp add: engine_defs)
  have n: "fragment_engine ''example.com'' ''other.com'' = NoMatch"
    by (simp add: engine_defs)
  have d1: "after_last CHR ''@'' ''a@mail.example.org'' = ''mail.example.org''"
    by (simp add: after_last_def)
  have d2: "after_last CHR ''@'' ''a@other.com'' = ''other.com''"
    by (simp add: after_last_def)
  have e1: "userEmail (google_profile ''u1'' ''a@mail.example.org'') = ''a@mail.example.org''"
    by (simp add: userEmail_def google_profile_def)
  have e2: "userEmail (google_profile ''u1'' ''a@other.com'') = ''a@other.com''"
    by (simp add: userEmail_def google_profile_def)
  have 1: "spec_isAuthorized fragment_engine [''*.example.com'', ''example.org''] ''a@mail.example.org''"
    by (simp add: spec_isAuthorized_def d1 m)
  have 2: "isAuthorized fragment_engine [''*.example.com'', ''example.org'']
         (google_profile ''u1'' ''a@mail.example.org'') = Inl SyntaxError"
    by (simp add: isAuthorized_def e1 userDomain_eq d1 Set_has_def js_or_def i)
  have 3: "isAuthorized fragment_engine [''example.org'', ''*.example.com'']
         (google_profile ''u1'' ''a@mail.example.org'') = Inr (JBool True)"
    by (simp add: isAuthorized_def e1 userDomain_eq d1 Set_has_def js_or_def m)
  have 4: "\<not> spec_isAuthorized fragment_engine [''example.com''] ''a@other.com''"
    by (simp add: spec_isAuthorized_def d2 n)
  have 5: "isAuthorized fragment_engine [''example.com''] (google_profile ''u1'' ''a@other.com'')
       = Inr JUndefined"
    by (simp add: isAuthorized_def e2 userDomain_eq d2 Set_has_def js_or_def n)
  from 1 2 3 4 5 show ?thesis by blast
qed

text \<open>
  C1, amended. For every authorization set \<open>S\<close> all of whose elements compile as regular
  expressions, and every profile whose first e-mail entry has the value \<open>E\<close> (the empty
  string when there is none): \<^verbatim>\<open>isAuthorized\<close> returns \<^verbatim>\<open>true\<close> if and only if the part of \<open>E\<close>
  after the last \<^verbatim>\<open>@\<close> is an element of \<open>S\<close>, or \<open>E\<close> is, or some element of \<open>S\<close> occurs as a
  pattern in that part; in every other case it returns the falsy value \<^verbatim>\<open>undefined\<close>. The
  result is the same for every order of the elements of \<open>S\<close>, and evaluating the three checks
  in any order gives a value that is truthy in exactly the same cases.
\<close>

theorem isAuthorized_valid_patterns:
  assumes "\<forall>p \<in> set S. rx p (after_last CHR ''@'' (userEmail u)) \<noteq> Invalid"
  shows "isAuthorized rx S u =
           Inr (if spec_isAuthorized rx S (userEmail u) then JBool True else JUndefined)
         \<and> (\<forall>S'. set S' = set S \<longrightarrow> isAuthorized rx S' u = isAuthorized rx S u)
         \<and> (\<forall>cs. set cs = set (checks rx S u) \<longrightarrow>
              (\<exists>v. or_chain cs = Inr v \<and> (truthy v \<longleftrightarrow> spec_isAuthorized rx S (userEmail u))))"
proof (intro conjI allI impI)
  show a: "isAuthorized rx S u =
           Inr (if spec_isAuthorized rx S (userEmail u) then JBool True else JUndefined)"
    using assms by (rule isAuthorized_valid)
  show "isAuthorized rx S' u = isAuthorized rx S u" if eq: "set S' = set S" for S'
  proof -
    have "\<forall>p \<in> set S'. rx p (after_last CHR ''@'' (userEmail u)) \<noteq> Invalid"
      using assms eq by simp
    then have "isAuthorized rx S' u =
           Inr (if spec_isAuthorized rx S' (userEmail u) then JBool True else JUndefined)"
      by (rule isAuthorized_valid)
    moreover have "spec_isAuthorized rx S' (userEmail u) = spec_isAuthorized rx S (userEmail u)"
      using eq by (simp add: spec_isAuthorized_def)
    ultimately show ?thesis using a by simp
  qed
  show "\<exists>v. or_chain cs = Inr v \<and> (truthy v \<longleftrightarrow> spec_isAuthorized rx S (userEmail u))"
    if eq: "set cs = set (checks rx S u)" for cs
  proof -
    have "\<forall>c \<in> set cs. \<exists>v. c = Inr v"
      using checks_total [where rx = rx and S = S and u = u] assms eq by simp
    then obtain v where "or_chain cs = Inr v"
      and "truthy v \<longleftrightarrow> (\<exists>w. Inr w \<in> set cs \<and> truthy w)"
      using or_chain_truthy by blast
    then show ?thesis
      using checks_truthy [where rx = rx and S = S and u = u] assms eq by auto
  qed
qed

theorem isAuthorized_valid_patterns_witness:
  "fragment_engine ''thecity.nyc'' ''example.com'' \<noteq> Invalid
   \<and> fragment_engine ''example.com'' ''example.com'' \<noteq> Invalid
   \<and> isAuthorized fragment_engine [''thecity.nyc'', ''example.com'']
         (google_profile ''u1'' ''a@example.com'') = Inr (JBool True)
   \<and> isAuthorized fragment_engine [''example.com'', ''thecity.nyc'']
         (google_profile ''u1'' ''a@example.com'') = Inr (JBool True)
   \<and> (\<exists>v. or_chain (rev (checks fragment_engine [''thecity.nyc'', ''example.com'']
                           (google_profile ''u1'' ''a@example.com''))) = Inr v \<and> truthy v)"
proof -
  let ?S = "[''thecity.nyc'', ''example.com'']"
  let ?u = "google_profile ''u1'' ''a@example.com''"
  have e: "userEmail ?u = ''a@example.com''"
    by (simp add: userEmail_def google_profile_def)
  have d: "after_last CHR ''@'' ''a@example.com'' = ''example.com''"
    by (simp add: after_last_def)
  have v1: "fragment_engine ''thecity.nyc'' ''example.com'' \<noteq> Invalid"
    by (simp add: engine_defs)
  have v2: "fragment_engine ''example.com'' ''example.com'' \<noteq> Invalid"
    by (simp add: engine_defs)
  have v: "\<forall>p \<in> set ?S. fragment_engine p (after_last CHR ''@'' (userEmail ?u)) \<noteq> Invalid"
    using v1 v2 by (simp add: e d)
  have sp: "spec_isAuthorized fragment_engine ?S (userEmail ?u)"
    by (simp add: spec_isAuthorized_def e d)
  note t = isAuthorized_valid_patterns [where rx = fragment_engine and S = ?S and u = ?u, OF v]
  from t sp have 1: "isAuthorized fragment_engine ?S ?u = Inr (JBool True)"
    by simp
  have "set [''example.com'', ''thecity.nyc''] = set ?S"
    by auto
  with t have "isAuthorized fragment_engine [''example.com'', ''thecity.nyc''] ?u
                 = isAuthorized fragment_engine ?S ?u"
    by blast
  with 1 have 2: "isAuthorized fragment_engine [''example.com'', ''thecity.nyc''] ?u
                    = Inr (JBool True)"
    by simp
  have "set (rev (checks fragment_engine ?S ?u)) = set (checks fragment_engine ?S ?u)"
    by simp
  with t sp have 3: "\<exists>v. or_chain (rev (checks fragment_engine ?S ?u)) = Inr v \<and> truthy v"
    by blast
  from v1 v2 1 2 3 show ?thesis by blast
qed




section \<open>The authorization set: verified properties\<close>



end
